theory Spec2Isabelle
  imports Complex_Main "HOL-Library.Multiset"
begin

chapter \<open>The NYC energy demand forecasting notebook\<close>

text \<open>
  The repository is one Jupyter notebook, \<^verbatim>\<open>auto-ml-energy-demand-forecasting.ipynb\<close>.
  Its own data manipulation is four cells: the chronological split (source lines 215-221),
  the AutoML settings (268-271), the test of the fitted model (397-398) and the forecast
  query (427-429). Model search, \<^verbatim>\<open>predict\<close> and \<^verbatim>\<open>forecast\<close> belong to the
  Azure ML service and are parameters of this development.
\<close>

section \<open>Values\<close>

text \<open>
  A cell of a \<^verbatim>\<open>float64\<close> column or array. Finite values are idealised as reals
  (rounding and infinities are not modelled); \<^verbatim>\<open>np.nan\<close> is a value of its own, as
  the notebook relies on it (\<^verbatim>\<open>y_query.fill(np.nan)\<close>) and as \<^verbatim>\<open>read_csv\<close>
  produces it for an empty cell.
\<close>

datatype fl = Fin real | NaN

text \<open>
  A cell of the \<^verbatim>\<open>datetime64[ns]\<close> column that \<^verbatim>\<open>parse_dates=['timeStamp']\<close>
  yields: nanoseconds since the epoch, or \<^verbatim>\<open>NaT\<close> (here \<open>None\<close>) for an empty cell.
\<close>

type_synonym stamp = "int option"

text \<open>The exceptions the modelled library calls raise.\<close>

datatype error = KeyError string | ValueError | NameError string

text \<open>Subtraction of \<^verbatim>\<open>float64\<close>: a \<^verbatim>\<open>nan\<close> operand gives \<^verbatim>\<open>nan\<close>.\<close>

fun fl_minus :: "fl \<Rightarrow> fl \<Rightarrow> fl" where
  "fl_minus (Fin a) (Fin b) = Fin (a - b)"
| "fl_minus _ _ = NaN"

section \<open>Data frames\<close>

text \<open>
  A \<^verbatim>\<open>DataFrame\<close> as \<^verbatim>\<open>pd.read_csv("nyc_energy.csv", parse_dates=['timeStamp'])\<close>
  (line 154) builds it, column by column as pandas stores it: the row labels, the parsed time
  column, and the float columns by name, in file order (the target \<^verbatim>\<open>demand\<close> among them).
\<close>

record frame =
  index :: "nat list"
  timeStamp :: "stamp list"
  fcols :: "(string \<times> fl list) list"

text \<open>Lines 215-216.\<close>

definition time_column_name :: string where
  "time_column_name = ''timeStamp''"

definition target_column_name :: string where
  "target_column_name = ''demand''"

text \<open>\<^verbatim>\<open>DataFrame.columns\<close>: the names of the time column and of the float columns.\<close>

definition columns :: "frame \<Rightarrow> string list" where
  "columns f = time_column_name # map fst (fcols f)"

text \<open>
  \<^verbatim>\<open>data[time_column_name] < '2017-02-01'\<close> and \<^verbatim>\<open>>=\<close>: the comparison of the time
  column with a timestamp, element by element. Every comparison with \<^verbatim>\<open>NaT\<close> is false.
\<close>

definition stamp_lt :: "stamp \<Rightarrow> int \<Rightarrow> bool" where
  "stamp_lt t c = (case t of None \<Rightarrow> False | Some x \<Rightarrow> x < c)"

definition stamp_ge :: "stamp \<Rightarrow> int \<Rightarrow> bool" where
  "stamp_ge t c = (case t of None \<Rightarrow> False | Some x \<Rightarrow> c \<le> x)"

definition series_lt :: "stamp list \<Rightarrow> int \<Rightarrow> bool list" where
  "series_lt ts c = map (\<lambda>t. stamp_lt t c) ts"

definition series_ge :: "stamp list \<Rightarrow> int \<Rightarrow> bool list" where
  "series_ge ts c = map (\<lambda>t. stamp_ge t c) ts"

text \<open>The entries of an array where a boolean mask is true, in order.\<close>

definition select :: "bool list \<Rightarrow> 'a list \<Rightarrow> 'a list" where
  "select m xs = map snd (filter fst (zip m xs))"

text \<open>
  \<^verbatim>\<open>data[mask]\<close> with a boolean mask: a new frame holding the rows where the mask is
  true, with every column of the original.
\<close>

definition getitem_mask :: "frame \<Rightarrow> bool list \<Rightarrow> frame" where
  "getitem_mask f m =
     \<lparr>index = select m (index f),
      timeStamp = select m (timeStamp f),
      fcols = map (\<lambda>(n, vs). (n, select m vs)) (fcols f)\<rparr>"

text \<open>
  \<^verbatim>\<open>X.pop(name).values\<close>: the column is returned and deleted from the frame;
  a missing column raises \<^verbatim>\<open>KeyError\<close>. The second component is the frame after the
  deletion.
\<close>

definition pop :: "frame \<Rightarrow> string \<Rightarrow> error + (fl list \<times> frame)" where
  "pop f name =
     (case map_of (fcols f) name of
        None \<Rightarrow> Inl (KeyError name)
      | Some vs \<Rightarrow> Inr (vs, f\<lparr>fcols := filter (\<lambda>(n, vs). n \<noteq> name) (fcols f)\<rparr>))"

section \<open>The split cell (lines 218-221)\<close>

text \<open>
  \<^verbatim>\<open>
  X_train = data[data[time_column_name] < '2017-02-01']
  X_test = data[data[time_column_name] >= '2017-02-01']
  y_train = X_train.pop(target_column_name).values
  y_test = X_test.pop(target_column_name).values
  \<close>
  The four variables the cell leaves behind, with the cutoff as a parameter.
\<close>

record partitions =
  X_train :: frame
  y_train :: "fl list"
  X_test :: frame
  y_test :: "fl list"

definition split :: "frame \<Rightarrow> int \<Rightarrow> error + partitions" where
  "split dat cutoff =
     (case pop (getitem_mask dat (series_lt (timeStamp dat) cutoff)) target_column_name of
        Inl e \<Rightarrow> Inl e
      | Inr (ytr, Xtr) \<Rightarrow>
          (case pop (getitem_mask dat (series_ge (timeStamp dat) cutoff)) target_column_name of
             Inl e \<Rightarrow> Inl e
           | Inr (yte, Xte) \<Rightarrow>
               Inr \<lparr>X_train = Xtr, y_train = ytr, X_test = Xte, y_test = yte\<rparr>))"

text \<open>The notebook's cutoff, 2017-02-01T00:00:00, in nanoseconds since the epoch.\<close>

definition cutoff_2017_02_01 :: int where
  "cutoff_2017_02_01 = 1485907200000000000"

definition split_notebook :: "frame \<Rightarrow> error + partitions" where
  "split_notebook dat = split dat cutoff_2017_02_01"

subsection \<open>The same cell over a store of frame objects\<close>

text \<open>
  Python variables hold references. The store is the list of the frame objects alive, an
  address is a position in it. \<^verbatim>\<open>data[mask]\<close> allocates a new object;
  \<^verbatim>\<open>pop\<close> updates the object it is called on in place.
\<close>

record refs =
  store :: "frame list"
  X_train_ref :: nat
  X_test_ref :: nat
  y_train_arr :: "fl list"
  y_test_arr :: "fl list"

definition new_frame :: "frame list \<Rightarrow> frame \<Rightarrow> frame list \<times> nat" where
  "new_frame h f = (h @ [f], length h)"

definition pop_at :: "frame list \<Rightarrow> nat \<Rightarrow> string \<Rightarrow> error + (fl list \<times> frame list)" where
  "pop_at h a name =
     (case pop (h ! a) name of
        Inl e \<Rightarrow> Inl e
      | Inr (vs, f) \<Rightarrow> Inr (vs, h[a := f]))"

definition split_cell :: "frame list \<Rightarrow> nat \<Rightarrow> int \<Rightarrow> error + refs" where
  "split_cell h dat cutoff =
     (if length h \<le> dat then Inl (NameError ''data'')
      else
        let (h1, xtr) = new_frame h
              (getitem_mask (h ! dat) (series_lt (timeStamp (h ! dat)) cutoff));
            (h2, xte) = new_frame h1
              (getitem_mask (h1 ! dat) (series_ge (timeStamp (h1 ! dat)) cutoff))
        in case pop_at h2 xtr target_column_name of
             Inl e \<Rightarrow> Inl e
           | Inr (ytr, h3) \<Rightarrow>
               (case pop_at h3 xte target_column_name of
                  Inl e \<Rightarrow> Inl e
                | Inr (yte, h4) \<Rightarrow>
                    Inr \<lparr>store = h4, X_train_ref = xtr, X_test_ref = xte,
                         y_train_arr = ytr, y_test_arr = yte\<rparr>))"

text \<open>
  The specification's wording for a partition, \<open>a read-only view sharing the dataset's
  record data\<close>: the object shows the selected records of the dataset as they are, every
  column of them, and is never written.
\<close>

definition read_only_view :: "frame \<Rightarrow> bool list \<Rightarrow> frame \<Rightarrow> bool" where
  "read_only_view D m X \<longleftrightarrow> X = getitem_mask D m"

section \<open>Records of a dataset\<close>

text \<open>
  The row view used to state the partition law: a record is a row label, its timestamp, its
  target value and its remaining features by name. \<open>records X y\<close> pairs the rows of a
  feature frame with a target array; \<open>dataset_records\<close> reads the records of a frame
  that still has its target column.
\<close>

type_synonym row = "nat \<times> stamp \<times> fl \<times> (string \<times> fl) list"

definition feature_rows :: "frame \<Rightarrow> (string \<times> fl) list list" where
  "feature_rows f = map (\<lambda>k. map (\<lambda>(n, vs). (n, vs ! k)) (fcols f)) [0..<length (index f)]"

definition records :: "frame \<Rightarrow> fl list \<Rightarrow> row list" where
  "records X y = zip (index X) (zip (timeStamp X) (zip y (feature_rows X)))"

definition dataset_records :: "frame \<Rightarrow> row list" where
  "dataset_records D =
     (case pop D target_column_name of Inl e \<Rightarrow> [] | Inr (y, X) \<Rightarrow> records X y)"

definition record_time :: "row \<Rightarrow> stamp" where
  "record_time r = fst (snd r)"

text \<open>
  What every frame built by \<^verbatim>\<open>read_csv\<close> satisfies: all columns have the length of
  the index, row labels are distinct, column names are distinct.
\<close>

definition wf_frame :: "frame \<Rightarrow> bool" where
  "wf_frame f \<longleftrightarrow>
     length (timeStamp f) = length (index f) \<and>
     (\<forall>c \<in> set (fcols f). length (snd c) = length (index f)) \<and>
     distinct (index f) \<and> distinct (map fst (fcols f))"

section \<open>Testing the fitted model\<close>

text \<open>
  The fitted model comes from the service (\<^verbatim>\<open>local_run.get_output()\<close>, line 374); the
  notebook calls two of its methods, which are parameters here: nothing is assumed about
  what they return, the horizon they accept (\<^verbatim>\<open>max_horizon\<close>, line 270) included.
\<close>

record fitted_model =
  predict :: "frame \<Rightarrow> fl list"
  forecast :: "frame \<Rightarrow> fl list \<Rightarrow> fl list \<times> frame"

text \<open>
  \<^verbatim>\<open>y_test - y_pred_test\<close> (line 398) on one-dimensional numpy arrays: element by
  element when the lengths agree; an array of length one is broadcast against the other;
  any other pair of lengths raises \<^verbatim>\<open>ValueError\<close> (operands could not be broadcast).
\<close>

definition residual :: "fl list \<Rightarrow> fl list \<Rightarrow> error + fl list" where
  "residual a p =
     (if length a = length p then Inr (map2 fl_minus a p)
      else if length p = 1 then Inr (map (\<lambda>x. fl_minus x (hd p)) a)
      else if length a = 1 then Inr (map (\<lambda>y. fl_minus (hd a) y) p)
      else Inl ValueError)"

text \<open>
  Lines 397-398:
  \<^verbatim>\<open>
  y_pred_test = fitted_model.predict(X_test)
  y_residual_test = y_test - y_pred_test
  \<close>
\<close>

definition test_cell :: "fitted_model \<Rightarrow> frame \<Rightarrow> fl list \<Rightarrow> fl list \<times> (error + fl list)" where
  "test_cell fitted X y =
     (let y_pred_test = predict fitted X;
          y_residual_test = residual y y_pred_test
      in (y_pred_test, y_residual_test))"

text \<open>
  Lines 427-429:
  \<^verbatim>\<open>
  y_query = y_test.copy().astype(np.float)
  y_query.fill(np.nan)
  y_fcst, X_trans = fitted_model.forecast(X_test, y_query)
  \<close>
  \<^verbatim>\<open>fill\<close> overwrites every entry of the copy; \<^verbatim>\<open>y_test\<close> itself is not touched.
\<close>

definition fill :: "fl list \<Rightarrow> fl \<Rightarrow> fl list" where
  "fill a v = map (\<lambda>x. v) a"

definition y_query :: "fl list \<Rightarrow> fl list" where
  "y_query y = fill y NaN"

definition forecast_cell :: "fitted_model \<Rightarrow> frame \<Rightarrow> fl list \<Rightarrow> fl list \<times> frame" where
  "forecast_cell fitted X y = forecast fitted X (y_query y)"

text \<open>
  The notebook's own definition (line 386): \<open>the last time at which a definite (non-NaN)
  value is seen is the forecast origin\<close>. The argument is the sequence of timestamps
  with their target values, in time order.
\<close>

definition forecast_origin :: "(stamp \<times> fl) list \<Rightarrow> stamp option" where
  "forecast_origin tys =
     (case filter (\<lambda>(t, y). y \<noteq> NaN) tys of
        [] \<Rightarrow> None
      | k # ks \<Rightarrow> Some (fst (last (k # ks))))"

section \<open>Evaluation\<close>

text \<open>
  The evaluation the notebook computes is the residual of line 398 and nothing else: the
  result of \<open>evaluate\<close> holds the residuals, and \<open>evaluate\<close> fails where the
  subtraction does.
\<close>

record evaluation_result =
  residuals :: "fl list"

definition evaluate :: "fl list \<Rightarrow> fl list \<Rightarrow> error + evaluation_result" where
  "evaluate actual predicted =
     (case residual actual predicted of
        Inl e \<Rightarrow> Inl e
      | Inr res \<Rightarrow> Inr \<lparr>residuals = res\<rparr>)"

subsection \<open>The imported metrics (line 70)\<close>

text \<open>
  \<^verbatim>\<open>from sklearn.metrics import mean_absolute_error, mean_squared_error, r2_score\<close>.
  The notebook imports the three functions and never calls them; they are the aggregate
  metrics it has at hand. They are modelled here as scikit-learn documents them, on
  one-dimensional arrays without sample weights.

  All three validate their arguments first: arrays of different lengths, an array with no
  sample, and an array holding \<^verbatim>\<open>NaN\<close> each raise \<^verbatim>\<open>ValueError\<close>. What is left
  are two non-empty sequences of finite values of the same length.
\<close>

fun finite_values :: "fl list \<Rightarrow> real list option" where
  "finite_values [] = Some []"
| "finite_values (Fin x # xs) = map_option ((#) x) (finite_values xs)"
| "finite_values (NaN # xs) = None"








section \<open>Concrete inputs\<close>

text \<open>A dataset of three rows in time order, with a target and one feature.\<close>

definition D0 :: frame where
  "D0 = \<lparr>index = [0, 1, 2],
         timeStamp = [Some 10, Some 20, Some 30],
         fcols = [(''demand'', [Fin 1, Fin 2, Fin 3]), (''temp'', [Fin 50, NaN, Fin 70])]\<rparr>"

text \<open>What the split leaves behind on it with the cutoff at the second row.\<close>

definition P0 :: partitions where
  "P0 = \<lparr>X_train = \<lparr>index = [0], timeStamp = [Some 10], fcols = [(''temp'', [Fin 50])]\<rparr>,
          y_train = [Fin 1],
          X_test = \<lparr>index = [1, 2], timeStamp = [Some 20, Some 30],
                    fcols = [(''temp'', [NaN, Fin 70])]\<rparr>,
          y_test = [Fin 2, Fin 3]\<rparr>"

text \<open>The same dataset with the timestamp of its second row missing.\<close>

definition D1 :: frame where
  "D1 = \<lparr>index = [0, 1, 2],
         timeStamp = [Some 10, None, Some 30],
         fcols = [(''demand'', [Fin 1, Fin 2, Fin 3]), (''temp'', [Fin 50, NaN, Fin 70])]\<rparr>"

text \<open>The same dataset with the target of its second row missing.\<close>

definition D2 :: frame where
  "D2 = \<lparr>index = [0, 1, 2],
         timeStamp = [Some 10, Some 20, Some 30],
         fcols = [(''demand'', [Fin 1, NaN, Fin 3]), (''temp'', [Fin 50, NaN, Fin 70])]\<rparr>"

text \<open>A fitted model whose two methods answer differently.\<close>

definition fm0 :: fitted_model where
  "fm0 = \<lparr>predict = (\<lambda>X. map (\<lambda>i. Fin 0) (index X)),
          forecast = (\<lambda>X y. (map (\<lambda>v. Fin 1) y, X))\<rparr>"

chapter \<open>Properties\<close>


section \<open>Row selection\<close>

lemma select_Nil [simp]: "select [] xs = []" "select m [] = []"
  by (simp_all add: select_def)

lemma select_Cons [simp]:
  "select (b # m) (x # xs) = (if b then x # select m xs else select m xs)"
  by (simp add: select_def)

lemma select_map: "select m (map f xs) = map f (select m xs)"
proof (induction m arbitrary: xs)
  case Nil
  then show ?case by simp
next
  case (Cons b m)
  then show ?case by (cases xs) simp_all
qed

lemma select_zip: "select m (zip xs ys) = zip (select m xs) (select m ys)"
proof (induction m arbitrary: xs ys)
  case Nil
  then show ?case by simp
next
  case (Cons b m)
  show ?case
  proof (cases xs)
    case Nil
    then show ?thesis by simp
  next
    case xs: (Cons x xs')
    show ?thesis
    proof (cases ys)
      case Nil
      then show ?thesis by simp
    next
      case ys: (Cons y ys')
      show ?thesis using Cons.IH [of xs' ys'] by (simp add: xs ys)
    qed
  qed
qed

lemma select_pred: "select (map p (map g rs)) rs = filter (\<lambda>r. p (g r)) rs"
  by (induction rs) simp_all

lemma length_select: "length xs = length m \<Longrightarrow> length (select m xs) = length (filter id m)"
  by (induction m arbitrary: xs) (auto simp: length_Suc_conv)

lemma select_nth:
  assumes "length xs = length m"
  shows "select m xs = map ((!) xs) (select m [0..<length m])"
proof -
  have "select m xs = select m (map ((!) xs) [0..<length xs])"
    by (simp add: map_nth)
  also have "\<dots> = map ((!) xs) (select m [0..<length m])"
    by (simp add: select_map assms)
  finally show ?thesis .
qed

lemma select_eq_Nil:
  assumes "length xs = length m"
  shows "select m xs = [] \<longleftrightarrow> (\<forall>b \<in> set m. \<not> b)"
proof -
  have "select m xs = [] \<longleftrightarrow> filter id m = []"
    using length_select [OF assms] by (metis length_0_conv)
  then show ?thesis by (simp add: filter_empty_conv)
qed

lemma select_all:
  "length xs = length m \<Longrightarrow> \<forall>b \<in> set m. b \<Longrightarrow> select m xs = xs"
  by (induction m arbitrary: xs) (auto simp: length_Suc_conv)

lemma set_select:
  assumes "length xs = length m"
  shows "set (select m xs) = {xs ! i |i. i < length m \<and> m ! i}"
proof -
  have "set (select m xs) = snd ` {p \<in> set (zip m xs). fst p}"
    by (simp add: select_def)
  also have "\<dots> = {xs ! i |i. i < length m \<and> m ! i}"
    using assms by (force simp: set_zip image_iff)
  finally show ?thesis .
qed

lemma select_member_iff:
  assumes "length xs = length m" and "distinct xs" and "k < length m"
  shows "xs ! k \<in> set (select m xs) \<longleftrightarrow> m ! k"
proof
  assume "xs ! k \<in> set (select m xs)"
  then obtain i where i: "i < length m" "m ! i" "xs ! k = xs ! i"
    unfolding set_select [OF assms(1)] by blast
  then have "k = i" using assms by (simp add: nth_eq_iff_index_eq)
  with i show "m ! k" by simp
next
  assume "m ! k"
  then show "xs ! k \<in> set (select m xs)"
    unfolding set_select [OF assms(1)] using assms(3) by blast
qed

section \<open>Frames\<close>

lemma map_of_map_snd:
  "map_of (map (\<lambda>(n, vs). (n, g vs)) cols) name = map_option g (map_of cols name)"
  by (induction cols) auto

lemma filter_map_snd:
  "filter (\<lambda>(n, vs). P n) (map (\<lambda>(n, vs). (n, g vs)) cols) =
   map (\<lambda>(n, vs). (n, g vs)) (filter (\<lambda>(n, vs). P n) cols)"
  by (induction cols) auto

lemma pop_getitem_mask:
  "pop (getitem_mask D m) name =
     (case pop D name of Inl e \<Rightarrow> Inl e
      | Inr (y, X) \<Rightarrow> Inr (select m y, getitem_mask X m))"
  by (simp add: pop_def getitem_mask_def map_of_map_snd filter_map_snd
           split: option.splits)

lemma pop_Inr_iff:
  "pop D name = Inr (y, X) \<longleftrightarrow>
     map_of (fcols D) name = Some y \<and>
     X = D\<lparr>fcols := filter (\<lambda>(n, vs). n \<noteq> name) (fcols D)\<rparr>"
  by (auto simp: pop_def split: option.splits)

lemma pop_total:
  assumes "name \<in> fst ` set (fcols D)"
  obtains y X where "pop D name = Inr (y, X)"
proof -
  from assms obtain y where "map_of (fcols D) name = Some y"
    by (metis domD dom_map_of_conv_image_fst)
  then show ?thesis using that by (simp add: pop_Inr_iff)
qed

lemma pop_frame:
  assumes "pop D name = Inr (y, X)"
  shows "index X = index D" and "timeStamp X = timeStamp D"
    and "set (fcols X) \<subseteq> set (fcols D)" and "(name, y) \<in> set (fcols D)"
    and "name \<notin> fst ` set (fcols X)"
  using assms by (auto simp: pop_Inr_iff dest: map_of_SomeD)

lemma split_Inr:
  assumes "pop D target_column_name = Inr (y, X)"
  shows "split D c =
    Inr \<lparr>X_train = getitem_mask X (series_lt (timeStamp D) c),
         y_train = select (series_lt (timeStamp D) c) y,
         X_test = getitem_mask X (series_ge (timeStamp D) c),
         y_test = select (series_ge (timeStamp D) c) y\<rparr>"
  by (simp add: split_def pop_getitem_mask assms)

lemma split_Inl:
  assumes "pop D target_column_name = Inl e"
  shows "split D c = Inl e"
  by (simp add: split_def pop_getitem_mask assms)

lemma map_nth_comp: "map (\<lambda>k. f (P ! k)) [0..<length P] = map f P"
proof -
  have "map (\<lambda>k. f (P ! k)) [0..<length P] = map f (map ((!) P) [0..<length P])"
    by (simp add: o_def)
  then show ?thesis by (simp only: map_nth)
qed

lemma length_feature_rows [simp]: "length (feature_rows X) = length (index X)"
  by (simp add: feature_rows_def)

lemma feature_rows_getitem_mask:
  assumes idx: "length (index X) = length m"
    and cols: "\<forall>c \<in> set (fcols X). length (snd c) = length m"
  shows "feature_rows (getitem_mask X m) = select m (feature_rows X)"
proof -
  define P where "P = select m [0..<length m]"
  define row where "row = (\<lambda>k. map (\<lambda>(n, vs). (n, vs ! k)) (fcols X))"
  have lenP: "length (select m (index X)) = length P"
    using idx by (simp add: P_def length_select)
  have sel: "select m vs ! k = vs ! (P ! k)"
    if "(n, vs) \<in> set (fcols X)" and "k < length P" for n vs k
  proof -
    have "length vs = length m" using cols that(1) by fastforce
    then have "select m vs = map ((!) vs) P" unfolding P_def by (rule select_nth)
    then show ?thesis using that(2) by simp
  qed
  have "feature_rows (getitem_mask X m) =
        map (\<lambda>k. map (\<lambda>(n, vs). (n, select m vs ! k)) (fcols X)) [0..<length P]"
    by (simp add: feature_rows_def getitem_mask_def lenP o_def case_prod_unfold)
  also have "\<dots> = map (\<lambda>k. row (P ! k)) [0..<length P]"
    unfolding row_def by (rule map_cong) (auto simp: sel)
  also have "\<dots> = map row P" by (rule map_nth_comp)
  also have "\<dots> = select m (map row [0..<length m])"
    by (simp add: select_map P_def)
  also have "\<dots> = select m (feature_rows X)"
    by (simp add: feature_rows_def row_def idx)
  finally show ?thesis .
qed

lemma records_getitem_mask:
  assumes "length (index X) = length m"
    and "\<forall>c \<in> set (fcols X). length (snd c) = length m"
  shows "records (getitem_mask X m) (select m y) = select m (records X y)"
proof -
  have "records (getitem_mask X m) (select m y) =
        zip (select m (index X)) (zip (select m (timeStamp X))
          (zip (select m y) (select m (feature_rows X))))"
    using feature_rows_getitem_mask [OF assms]
    by (simp add: records_def getitem_mask_def)
  then show ?thesis by (simp add: records_def select_zip)
qed

lemma records_projections:
  assumes "length (timeStamp X) = length (index X)" and "length y = length (index X)"
  shows "map fst (records X y) = index X"
    and "map record_time (records X y) = timeStamp X"
    and "map (\<lambda>r. fst (snd (snd r))) (records X y) = y"
  using assms
  by (simp_all add: records_def record_time_def list_eq_iff_nth_eq)

lemma stamp_ge_iff_not_lt: "t \<noteq> None \<Longrightarrow> stamp_ge t c \<longleftrightarrow> \<not> stamp_lt t c"
  by (auto simp: stamp_ge_def stamp_lt_def)

text \<open>What a well-formed frame with a target column gives the split.\<close>

lemma split_facts:
  assumes wf: "wf_frame D" and pop: "pop D target_column_name = Inr (y, X)"
  shows "length (timeStamp X) = length (index X)"
    and "length y = length (index X)"
    and "\<forall>c \<in> set (fcols X). length (snd c) = length (index X)"
    and "length (index X) = length (series_lt (timeStamp D) c)"
    and "length (index X) = length (series_ge (timeStamp D) c)"
    and "dataset_records D = records X y"
    and "map record_time (records X y) = timeStamp D"
    and "map fst (records X y) = index D"
proof -
  note fr = pop_frame [OF pop]
  show len_ts: "length (timeStamp X) = length (index X)"
    using wf fr by (simp add: wf_frame_def)
  show len_y: "length y = length (index X)"
    using wf fr(1,4) by (fastforce simp: wf_frame_def)
  show "\<forall>c \<in> set (fcols X). length (snd c) = length (index X)"
    using wf fr(1,3) by (auto simp: wf_frame_def)
  show "length (index X) = length (series_lt (timeStamp D) c)"
    and "length (index X) = length (series_ge (timeStamp D) c)"
    using len_ts fr by (simp_all add: series_lt_def series_ge_def)
  show "dataset_records D = records X y"
    by (simp add: dataset_records_def pop)
  show "map record_time (records X y) = timeStamp D"
    and "map fst (records X y) = index D"
    using records_projections [OF len_ts len_y] fr by simp_all
qed

lemma train_records:
  assumes wf: "wf_frame D" and pop: "pop D target_column_name = Inr (y, X)"
  shows "records (getitem_mask X (series_lt (timeStamp D) c)) (select (series_lt (timeStamp D) c) y)
         = filter (\<lambda>r. stamp_lt (record_time r) c) (records X y)"
proof -
  note f = split_facts [OF wf pop]
  have "records (getitem_mask X (series_lt (timeStamp D) c)) (select (series_lt (timeStamp D) c) y)
        = select (series_lt (timeStamp D) c) (records X y)"
    using f(4) f(3) by (intro records_getitem_mask) simp_all
  also have "\<dots> = filter (\<lambda>r. stamp_lt (record_time r) c) (records X y)"
    using select_pred [of "\<lambda>t. stamp_lt t c" record_time "records X y"]
    by (simp only: f(7) series_lt_def)
  finally show ?thesis .
qed

lemma test_records:
  assumes wf: "wf_frame D" and pop: "pop D target_column_name = Inr (y, X)"
  shows "records (getitem_mask X (series_ge (timeStamp D) c)) (select (series_ge (timeStamp D) c) y)
         = filter (\<lambda>r. stamp_ge (record_time r) c) (records X y)"
proof -
  note f = split_facts [OF wf pop]
  have "records (getitem_mask X (series_ge (timeStamp D) c)) (select (series_ge (timeStamp D) c) y)
        = select (series_ge (timeStamp D) c) (records X y)"
    using f(5) f(3) by (intro records_getitem_mask) simp_all
  also have "\<dots> = filter (\<lambda>r. stamp_ge (record_time r) c) (records X y)"
    using select_pred [of "\<lambda>t. stamp_ge t c" record_time "records X y"]
    by (simp only: f(7) series_ge_def)
  finally show ?thesis .
qed

lemma columns_pop:
  assumes "pop D name = Inr (y, X)" and "name \<noteq> time_column_name"
  shows "columns X = filter (\<lambda>n. n \<noteq> name) (columns D)"
  using assms by (auto simp: pop_Inr_iff columns_def filter_map o_def case_prod_unfold)

lemma columns_getitem_mask [simp]: "columns (getitem_mask X m) = columns X"
  by (simp add: columns_def getitem_mask_def o_def case_prod_unfold)

lemma target_not_time: "target_column_name \<noteq> time_column_name"
  by (simp add: target_column_name_def time_column_name_def)

lemma select_triples:
  assumes "length ts = length idx" and "length y = length idx"
  shows "zip (select (map p ts) idx) (zip (select (map p ts) ts) (select (map p ts) y)) =
         filter (\<lambda>(i, t, v). p t) (zip idx (zip ts y))"
proof -
  have ts: "map (\<lambda>z. fst (snd z)) (zip idx (zip ts y)) = ts"
    using assms by (simp add: list_eq_iff_nth_eq)
  have "zip (select (map p ts) idx) (zip (select (map p ts) ts) (select (map p ts) y)) =
        select (map p ts) (zip idx (zip ts y))"
    by (simp add: select_zip)
  also have "\<dots> = filter (\<lambda>z. p (fst (snd z))) (zip idx (zip ts y))"
    using select_pred [of p "\<lambda>z. fst (snd z)" "zip idx (zip ts y)"] by (simp only: ts)
  finally show ?thesis by (simp add: case_prod_unfold)
qed

lemma mset_stamp_partition:
  "mset (filter (\<lambda>r. stamp_lt (record_time r) c) rs) +
   mset (filter (\<lambda>r. stamp_ge (record_time r) c) rs) =
   mset (filter (\<lambda>r. record_time r \<noteq> None) rs)"
proof (induction rs)
  case Nil
  then show ?case by simp
next
  case (Cons r rs)
  show ?case
  proof (cases "record_time r")
    case None
    then show ?thesis using Cons by (simp add: stamp_lt_def stamp_ge_def)
  next
    case (Some x)
    then show ?thesis using Cons by (auto simp: stamp_lt_def stamp_ge_def)
  qed
qed

section \<open>The cell over the store\<close>

lemma split_cell_split:
  assumes "dat < length h"
  shows "split_cell h dat c =
     (case split (h ! dat) c of
        Inl e \<Rightarrow> Inl e
      | Inr P \<Rightarrow>
          Inr \<lparr>store = h @ [X_train P, X_test P],
               X_train_ref = length h, X_test_ref = Suc (length h),
               y_train_arr = y_train P, y_test_arr = y_test P\<rparr>)"
  using assms
  by (simp add: split_cell_def split_def new_frame_def pop_at_def nth_append
        list_update_append split: sum.splits prod.splits)

lemma pop_changes_frame:
  assumes "pop D name = Inr (y, X)"
  shows "getitem_mask X m \<noteq> getitem_mask D m"
proof
  assume "getitem_mask X m = getitem_mask D m"
  then have "map fst (fcols (getitem_mask X m)) = map fst (fcols (getitem_mask D m))"
    by simp
  then have "map fst (fcols X) = map fst (fcols D)"
    by (simp add: getitem_mask_def o_def case_prod_unfold)
  then have "fst ` set (fcols X) = fst ` set (fcols D)"
    by (metis set_map)
  then show False using pop_frame(4,5) [OF assms] by force
qed

section \<open>The forecast query\<close>

lemma split_Inr_elim:
  assumes "split D c = Inr P"
  obtains y X where "pop D target_column_name = Inr (y, X)"
    and "P = \<lparr>X_train = getitem_mask X (series_lt (timeStamp D) c),
               y_train = select (series_lt (timeStamp D) c) y,
               X_test = getitem_mask X (series_ge (timeStamp D) c),
               y_test = select (series_ge (timeStamp D) c) y\<rparr>"
proof (cases "pop D target_column_name")
  case (Inl e)
  then show ?thesis using assms by (simp add: split_Inl)
next
  case (Inr yX)
  obtain y X where yX: "yX = (y, X)" by (cases yX)
  show ?thesis using assms that [of y X] Inr by (simp add: yX split_Inr)
qed

lemma y_query_replicate: "y_query y = replicate (length y) NaN"
  by (simp add: y_query_def fill_def map_replicate_const)

lemma forecast_origin_unknown_suffix:
  "forecast_origin (known @ zip ts (y_query y)) = forecast_origin known"
proof -
  have "filter (\<lambda>(t, v). v \<noteq> NaN) (zip ts (y_query y)) = []"
    by (auto simp: filter_empty_conv y_query_replicate dest: set_zip_rightD)
  then show ?thesis by (simp add: forecast_origin_def)
qed

lemma forecast_origin_last_known:
  assumes "length ts = length ys" and "ys \<noteq> []" and "last ys \<noteq> NaN"
  shows "forecast_origin (zip ts ys) = Some (last ts)"
proof -
  from assms(2) obtain ys' v where ys: "ys = ys' @ [v]"
    by (metis append_butlast_last_id)
  with assms(1) obtain ts' t where ts: "ts = ts' @ [t]"
    by (metis append_butlast_last_id length_0_conv snoc_eq_iff_butlast)
  have len: "length ts' = length ys'" using assms(1) by (simp add: ys ts)
  have v: "v \<noteq> NaN" using assms(3) by (simp add: ys)
  define known where "known = filter (\<lambda>(t, v). v \<noteq> NaN) (zip ts ys)"
  have "known = filter (\<lambda>(t, v). v \<noteq> NaN) (zip ts' ys') @ [(t, v)]"
    using len v by (simp add: known_def ys ts)
  then have ne: "known \<noteq> []" and la: "fst (last known) = t" by simp_all
  from ne obtain k ks where "known = k # ks" by (cases known) auto
  then have "forecast_origin (zip ts ys) = Some (fst (last known))"
    by (simp add: forecast_origin_def known_def [symmetric])
  then show ?thesis by (simp add: la ts)
qed

lemma select_self: "select (map p xs) xs = filter p xs"
  using select_pred [of p "\<lambda>x. x" xs] by simp

lemma forecast_origin_mem:
  assumes "forecast_origin tys = Some t"
  shows "t \<in> fst ` set tys"
proof (cases "filter (\<lambda>(t, y). y \<noteq> NaN) tys")
  case Nil
  then show ?thesis using assms by (simp add: forecast_origin_def)
next
  case (Cons k ks)
  then have "t = fst (last (k # ks))"
    using assms by (simp add: forecast_origin_def)
  moreover have "last (k # ks) \<in> set (k # ks)" by (rule last_in_set) simp
  moreover have "set (k # ks) \<subseteq> set tys"
    using Cons by (metis filter_is_subset)
  ultimately show ?thesis by blast
qed

section \<open>The imported metrics on finite values\<close>

lemma finite_values_Fin [simp]: "finite_values (map Fin xs) = Some xs"
  by (induction xs) simp_all











section \<open>The concrete inputs\<close>

lemma D0_wf: "wf_frame D0"
  by (simp add: D0_def wf_frame_def)

lemma D0_target: "target_column_name \<in> fst ` set (fcols D0)"
  by (simp add: D0_def target_column_name_def)

lemma split_D0_20:
  "split D0 20 =
     Inr \<lparr>X_train = \<lparr>index = [0], timeStamp = [Some 10], fcols = [(''temp'', [Fin 50])]\<rparr>,
          y_train = [Fin 1],
          X_test = \<lparr>index = [1, 2], timeStamp = [Some 20, Some 30],
                    fcols = [(''temp'', [NaN, Fin 70])]\<rparr>,
          y_test = [Fin 2, Fin 3]\<rparr>"
  by (simp add: split_def pop_def getitem_mask_def series_lt_def series_ge_def
        stamp_lt_def stamp_ge_def D0_def target_column_name_def)

lemma split_D0_5:
  "split D0 5 =
     Inr \<lparr>X_train = \<lparr>index = [], timeStamp = [], fcols = [(''temp'', [])]\<rparr>,
          y_train = [],
          X_test = \<lparr>index = [0, 1, 2], timeStamp = [Some 10, Some 20, Some 30],
                    fcols = [(''temp'', [Fin 50, NaN, Fin 70])]\<rparr>,
          y_test = [Fin 1, Fin 2, Fin 3]\<rparr>"
  by (simp add: split_def pop_def getitem_mask_def series_lt_def series_ge_def
        stamp_lt_def stamp_ge_def D0_def target_column_name_def)

lemma split_D0_30:
  "split D0 30 =
     Inr \<lparr>X_train = \<lparr>index = [0, 1], timeStamp = [Some 10, Some 20],
                     fcols = [(''temp'', [Fin 50, NaN])]\<rparr>,
          y_train = [Fin 1, Fin 2],
          X_test = \<lparr>index = [2], timeStamp = [Some 30], fcols = [(''temp'', [Fin 70])]\<rparr>,
          y_test = [Fin 3]\<rparr>"
  by (simp add: split_def pop_def getitem_mask_def series_lt_def series_ge_def
        stamp_lt_def stamp_ge_def D0_def target_column_name_def)

lemma split_D0_31:
  "split D0 31 =
     Inr \<lparr>X_train = \<lparr>index = [0, 1, 2], timeStamp = [Some 10, Some 20, Some 30],
                     fcols = [(''temp'', [Fin 50, NaN, Fin 70])]\<rparr>,
          y_train = [Fin 1, Fin 2, Fin 3],
          X_test = \<lparr>index = [], timeStamp = [], fcols = [(''temp'', [])]\<rparr>,
          y_test = []\<rparr>"
  by (simp add: split_def pop_def getitem_mask_def series_lt_def series_ge_def
        stamp_lt_def stamp_ge_def D0_def target_column_name_def)

lemma split_D0_P0: "split D0 20 = Inr P0"
  by (simp add: split_D0_20 P0_def)

lemma split_cell_D0_20:
  "split_cell [D0] 0 20 =
     Inr \<lparr>store = [D0,
            \<lparr>index = [0], timeStamp = [Some 10], fcols = [(''temp'', [Fin 50])]\<rparr>,
            \<lparr>index = [1, 2], timeStamp = [Some 20, Some 30],
              fcols = [(''temp'', [NaN, Fin 70])]\<rparr>],
          X_train_ref = 1, X_test_ref = 2,
          y_train_arr = [Fin 1], y_test_arr = [Fin 2, Fin 3]\<rparr>"
  by (simp add: split_cell_split split_D0_20)

lemma dataset_records_D0:
  "dataset_records D0 =
     [(0, Some 10, Fin 1, [(''temp'', Fin 50)]),
      (1, Some 20, Fin 2, [(''temp'', NaN)]),
      (2, Some 30, Fin 3, [(''temp'', Fin 70)])]"
  by (simp add: dataset_records_def pop_def records_def feature_rows_def D0_def
        target_column_name_def upt_rec [of 0] upt_rec [of 1] upt_rec [of 2] numeral_3_eq_3)

lemma records_P0:
  "records (X_train P0) (y_train P0) = [(0, Some 10, Fin 1, [(''temp'', Fin 50)])]"
  "records (X_test P0) (y_test P0) =
     [(1, Some 20, Fin 2, [(''temp'', NaN)]), (2, Some 30, Fin 3, [(''temp'', Fin 70)])]"
  by (simp_all add: records_def feature_rows_def P0_def upt_rec [of 0] upt_rec [of 1]
        numeral_2_eq_2)

lemma split_D1_20:
  "split D1 20 =
     Inr \<lparr>X_train = \<lparr>index = [0], timeStamp = [Some 10], fcols = [(''temp'', [Fin 50])]\<rparr>,
          y_train = [Fin 1],
          X_test = \<lparr>index = [2], timeStamp = [Some 30], fcols = [(''temp'', [Fin 70])]\<rparr>,
          y_test = [Fin 3]\<rparr>"
  by (simp add: split_def pop_def getitem_mask_def series_lt_def series_ge_def
        stamp_lt_def stamp_ge_def D1_def target_column_name_def)

lemma dataset_records_D1:
  "dataset_records D1 =
     [(0, Some 10, Fin 1, [(''temp'', Fin 50)]),
      (1, None, Fin 2, [(''temp'', NaN)]),
      (2, Some 30, Fin 3, [(''temp'', Fin 70)])]"
  by (simp add: dataset_records_def pop_def records_def feature_rows_def D1_def
        target_column_name_def upt_rec [of 0] upt_rec [of 1] upt_rec [of 2] numeral_3_eq_3)

lemma D1_wf: "wf_frame D1"
  by (simp add: D1_def wf_frame_def)

lemma D1_target: "target_column_name \<in> fst ` set (fcols D1)"
  by (simp add: D1_def target_column_name_def)

lemma split_D2_30:
  "split D2 30 =
     Inr \<lparr>X_train = \<lparr>index = [0, 1], timeStamp = [Some 10, Some 20],
                     fcols = [(''temp'', [Fin 50, NaN])]\<rparr>,
          y_train = [Fin 1, NaN],
          X_test = \<lparr>index = [2], timeStamp = [Some 30], fcols = [(''temp'', [Fin 70])]\<rparr>,
          y_test = [Fin 3]\<rparr>"
  by (simp add: split_def pop_def getitem_mask_def series_lt_def series_ge_def
        stamp_lt_def stamp_ge_def D2_def target_column_name_def)

lemma D2_wf: "wf_frame D2"
  by (simp add: D2_def wf_frame_def)

section \<open>C1: the split partitions the rows that have a timestamp\<close>

text \<open>
  C1, as the code has it. For every well-formed dataset \<open>D\<close> with its target column and
  every cutoff \<open>c\<close>, the split returns, and its two partitions, each with its target
  values put back beside its rows (\<open>y_train\<close> beside \<open>X_train\<close>, \<open>y_test\<close> beside
  \<open>X_test\<close>), are exactly the records of \<open>D\<close> whose timestamp is before the cutoff and
  the records of \<open>D\<close> whose timestamp is at or after it, in order. Together they are the
  records of \<open>D\<close> that have a timestamp, as a multiset: none of those is lost, none is
  duplicated, and no row label is in both partitions. A record whose timestamp is missing is
  in neither. So when every record of \<open>D\<close> has a timestamp, the two partitions together
  are the records of \<open>D\<close>.
\<close>

theorem split_partitions_dataset:
  assumes wf: "wf_frame D"
    and tgt: "target_column_name \<in> fst ` set (fcols D)"
  shows "\<exists>P.
    split D c = Inr P \<and>
    records (X_train P) (y_train P) =
      filter (\<lambda>r. stamp_lt (record_time r) c) (dataset_records D) \<and>
    records (X_test P) (y_test P) =
      filter (\<lambda>r. stamp_ge (record_time r) c) (dataset_records D) \<and>
    mset (records (X_train P) (y_train P)) + mset (records (X_test P) (y_test P)) =
      mset (filter (\<lambda>r. record_time r \<noteq> None) (dataset_records D)) \<and>
    map fst (dataset_records D) = index D \<and>
    map fst (records (X_train P) (y_train P)) = index (X_train P) \<and>
    map fst (records (X_test P) (y_test P)) = index (X_test P) \<and>
    set (index (X_train P)) \<inter> set (index (X_test P)) = {} \<and>
    distinct (index (X_train P) @ index (X_test P)) \<and>
    set (index (X_train P)) \<union> set (index (X_test P)) \<subseteq> set (index D) \<and>
    (None \<notin> set (timeStamp D) \<longrightarrow>
       mset (records (X_train P) (y_train P)) + mset (records (X_test P) (y_test P)) =
         mset (dataset_records D) \<and>
       set (index (X_train P)) \<union> set (index (X_test P)) = set (index D))"
proof -
  from tgt obtain y X where pop: "pop D target_column_name = Inr (y, X)"
    by (rule pop_total)
  note f = split_facts [OF wf pop]
  define mlt where "mlt = series_lt (timeStamp D) c"
  define mge where "mge = series_ge (timeStamp D) c"
  define rs where "rs = records X y"
  define P where "P = \<lparr>X_train = getitem_mask X mlt, y_train = select mlt y,
                       X_test = getitem_mask X mge, y_test = select mge y\<rparr>"
  have sp: "split D c = Inr P"
    unfolding P_def mlt_def mge_def by (rule split_Inr [OF pop])
  have ds: "dataset_records D = rs" using f(6) by (simp add: rs_def)
  have idx: "map fst rs = index D" using f(8) by (simp add: rs_def)
  have times: "map record_time rs = timeStamp D" using f(7) by (simp add: rs_def)
  have tr: "records (X_train P) (y_train P) = filter (\<lambda>r. stamp_lt (record_time r) c) rs"
    using train_records [OF wf pop, of c] by (simp add: P_def mlt_def rs_def)
  have te: "records (X_test P) (y_test P) = filter (\<lambda>r. stamp_ge (record_time r) c) rs"
    using test_records [OF wf pop, of c] by (simp add: P_def mge_def rs_def)
  have part: "mset (records (X_train P) (y_train P)) + mset (records (X_test P) (y_test P)) =
     mset (filter (\<lambda>r. record_time r \<noteq> None) rs)"
    unfolding tr te by (rule mset_stamp_partition)
  have i_tr: "map fst (records (X_train P) (y_train P)) = index (X_train P)"
    and i_te: "map fst (records (X_test P) (y_test P)) = index (X_test P)"
    using f(1,2,4,5)
    by (simp_all add: P_def records_def getitem_mask_def length_select mlt_def mge_def
          series_lt_def series_ge_def)
  define stamped where "stamped = filter (\<lambda>r. record_time r \<noteq> None) rs"
  have eq: "mset (index (X_train P) @ index (X_test P)) = mset (map fst stamped)"
  proof -
    have "mset (index (X_train P) @ index (X_test P)) =
          image_mset fst (mset (records (X_train P) (y_train P)) +
                          mset (records (X_test P) (y_test P)))"
      by (simp add: i_tr [symmetric] i_te [symmetric])
    then show ?thesis by (simp only: part stamped_def mset_map)
  qed
  have d_rs: "distinct (map fst rs)" using wf idx by (simp add: wf_frame_def)
  have d_st: "distinct (map fst stamped)"
    unfolding stamped_def using d_rs by (rule distinct_map_filter)
  have dist: "distinct (index (X_train P) @ index (X_test P))"
    using mset_eq_imp_distinct_iff [OF eq] d_st by blast
  have sets: "set (index (X_train P) @ index (X_test P)) = set (map fst stamped)"
    using eq by (rule mset_eq_setD)
  have sub: "set (index (X_train P)) \<union> set (index (X_test P)) \<subseteq> set (index D)"
  proof -
    have "set (map fst stamped) \<subseteq> set (map fst rs)"
      by (auto simp: stamped_def)
    then show ?thesis using sets idx by simp
  qed
  have disj: "set (index (X_train P)) \<inter> set (index (X_test P)) = {}"
    using dist by simp
  have full: "mset (records (X_train P) (y_train P)) + mset (records (X_test P) (y_test P)) =
         mset rs \<and> set (index (X_train P)) \<union> set (index (X_test P)) = set (index D)"
    if nonat: "None \<notin> set (timeStamp D)"
  proof -
    have "\<forall>r \<in> set rs. record_time r \<noteq> None"
    proof
      fix r assume "r \<in> set rs"
      then have "record_time r \<in> set (map record_time rs)" by simp
      then show "record_time r \<noteq> None" using nonat times by metis
    qed
    then have "stamped = rs" by (simp add: stamped_def)
    then show ?thesis using part sets idx by (simp add: stamped_def)
  qed
  show ?thesis
    apply (intro exI [of _ P] conjI impI)
               apply (rule sp)
    using tr te part i_tr i_te dist disj sub idx full by (simp_all add: ds)
qed

theorem split_partitions_dataset_witness:
  "wf_frame D0 \<and> target_column_name \<in> fst ` set (fcols D0) \<and> None \<notin> set (timeStamp D0) \<and>
   split D0 20 = Inr P0 \<and>
   dataset_records D0 =
     [(0, Some 10, Fin 1, [(''temp'', Fin 50)]),
      (1, Some 20, Fin 2, [(''temp'', NaN)]),
      (2, Some 30, Fin 3, [(''temp'', Fin 70)])] \<and>
   records (X_train P0) (y_train P0) = [(0, Some 10, Fin 1, [(''temp'', Fin 50)])] \<and>
   records (X_test P0) (y_test P0) =
     [(1, Some 20, Fin 2, [(''temp'', NaN)]), (2, Some 30, Fin 3, [(''temp'', Fin 70)])] \<and>
   mset (records (X_train P0) (y_train P0)) + mset (records (X_test P0) (y_test P0)) =
     mset (dataset_records D0) \<and>
   set (index (X_train P0)) \<inter> set (index (X_test P0)) = {} \<and>
   set (index (X_train P0)) \<union> set (index (X_test P0)) = set (index D0) \<and>
   distinct (index (X_train P0) @ index (X_test P0))"
proof -
  have h: "None \<notin> set (timeStamp D0)" by (simp add: D0_def)
  from split_partitions_dataset [OF D0_wf D0_target, of 20] h
  obtain P where P: "split D0 20 = Inr P"
    and law: "mset (records (X_train P) (y_train P)) + mset (records (X_test P) (y_test P)) =
      mset (dataset_records D0)"
      "set (index (X_train P)) \<inter> set (index (X_test P)) = {}"
      "set (index (X_train P)) \<union> set (index (X_test P)) = set (index D0)"
      "distinct (index (X_train P) @ index (X_test P))"
    by blast
  from P have "P = P0" by (simp add: split_D0_P0)
  with law show ?thesis
    using D0_wf D0_target h split_D0_P0 dataset_records_D0 records_P0 by blast
qed

text \<open>
  The claim as stated is for every dataset. A row whose timestamp cell is empty is read as
  \<^verbatim>\<open>NaT\<close>, and both comparisons of lines 218-219 are false on it: on the three-row
  dataset whose second timestamp is missing, the second row is in neither partition.
\<close>

theorem missing_timestamp_row_lost_counterexample:
  "wf_frame D1 \<and> target_column_name \<in> fst ` set (fcols D1) \<and>
   split D1 20 =
     Inr \<lparr>X_train = \<lparr>index = [0], timeStamp = [Some 10], fcols = [(''temp'', [Fin 50])]\<rparr>,
          y_train = [Fin 1],
          X_test = \<lparr>index = [2], timeStamp = [Some 30], fcols = [(''temp'', [Fin 70])]\<rparr>,
          y_test = [Fin 3]\<rparr> \<and>
   dataset_records D1 =
     [(0, Some 10, Fin 1, [(''temp'', Fin 50)]),
      (1, None, Fin 2, [(''temp'', NaN)]),
      (2, Some 30, Fin 3, [(''temp'', Fin 70)])] \<and>
   index (X_train (projr (split D1 20))) @ index (X_test (projr (split D1 20))) = [0, 2] \<and>
   set (index (X_train (projr (split D1 20)))) \<union> set (index (X_test (projr (split D1 20))))
     \<noteq> set (index D1) \<and>
   mset (records (X_train (projr (split D1 20))) (y_train (projr (split D1 20)))) +
   mset (records (X_test (projr (split D1 20))) (y_test (projr (split D1 20))))
     \<noteq> mset (dataset_records D1)"
proof -
  have ix: "index D1 = [0, 1, 2]" by (simp add: D1_def)
  have r1: "records \<lparr>index = [0], timeStamp = [Some 10], fcols = [(''temp'', [Fin 50])]\<rparr> [Fin 1]
      = [(0, Some 10, Fin 1, [(''temp'', Fin 50)])]"
    and r2: "records \<lparr>index = [2], timeStamp = [Some 30], fcols = [(''temp'', [Fin 70])]\<rparr> [Fin 3]
      = [(2, Some 30, Fin 3, [(''temp'', Fin 70)])]"
    by (simp_all add: records_def feature_rows_def)
  have sz: "size (mset [(0::nat, Some (10::int), Fin 1, [(''temp'', Fin 50)])] +
                  mset [(2::nat, Some (30::int), Fin 3, [(''temp'', Fin 70)])]) \<noteq>
            size (mset (dataset_records D1))"
    by (simp add: dataset_records_D1)
  then have ne: "mset [(0::nat, Some (10::int), Fin 1, [(''temp'', Fin 50)])] +
                  mset [(2::nat, Some (30::int), Fin 3, [(''temp'', Fin 70)])] \<noteq>
            mset (dataset_records D1)"
    by metis
  have sne: "set [0::nat] \<union> set [2] \<noteq> set [0, 1, 2]"
  proof
    assume "set [0::nat] \<union> set [2] = set [0, 1, 2]"
    then have "(1::nat) \<in> set [0] \<union> set [2]" by simp
    then show False by simp
  qed
  show ?thesis
    unfolding split_D1_20
    using D1_wf D1_target dataset_records_D1 ne sne by (simp add: ix r1 r2)
qed

section \<open>C2: which rows go where, and where the target goes\<close>

text \<open>
  C2, as the code has it. For every well-formed dataset with its target column and every
  cutoff the split returns, and: a row is in \<open>X_train\<close> exactly when its timestamp is
  before the cutoff and in \<open>X_test\<close> exactly when it is at or after it (a row without a
  timestamp is in neither); the target column is removed from both frames, every other
  column is kept; the removed values are kept as \<open>y_train\<close> and \<open>y_test\<close>, aligned
  row by row (label and timestamp) with the frame they were popped from.
\<close>

theorem split_assigns_rows_and_pops_target:
  assumes wf: "wf_frame D"
    and tgt: "map_of (fcols D) target_column_name = Some demand"
  shows "\<exists>P. split D c = Inr P \<and>
     (\<forall>k < length (index D).
        (index D ! k \<in> set (index (X_train P)) \<longleftrightarrow> stamp_lt (timeStamp D ! k) c) \<and>
        (index D ! k \<in> set (index (X_test P)) \<longleftrightarrow> stamp_ge (timeStamp D ! k) c)) \<and>
     target_column_name \<notin> set (columns (X_train P)) \<and>
     target_column_name \<notin> set (columns (X_test P)) \<and>
     columns (X_train P) = filter (\<lambda>n. n \<noteq> target_column_name) (columns D) \<and>
     columns (X_test P) = filter (\<lambda>n. n \<noteq> target_column_name) (columns D) \<and>
     zip (index (X_train P)) (zip (timeStamp (X_train P)) (y_train P)) =
       filter (\<lambda>(i, t, v). stamp_lt t c) (zip (index D) (zip (timeStamp D) demand)) \<and>
     zip (index (X_test P)) (zip (timeStamp (X_test P)) (y_test P)) =
       filter (\<lambda>(i, t, v). stamp_ge t c) (zip (index D) (zip (timeStamp D) demand)) \<and>
     length (y_train P) = length (index (X_train P)) \<and>
     length (timeStamp (X_train P)) = length (index (X_train P)) \<and>
     length (y_test P) = length (index (X_test P)) \<and>
     length (timeStamp (X_test P)) = length (index (X_test P))"
proof -
  define X where "X = D\<lparr>fcols := filter (\<lambda>(n, vs). n \<noteq> target_column_name) (fcols D)\<rparr>"
  have pop: "pop D target_column_name = Inr (demand, X)"
    using tgt by (simp add: pop_Inr_iff X_def)
  note fr = pop_frame [OF pop]
  note f = split_facts [OF wf pop]
  define mlt where "mlt = series_lt (timeStamp D) c"
  define mge where "mge = series_ge (timeStamp D) c"
  define P where "P = \<lparr>X_train = getitem_mask X mlt, y_train = select mlt demand,
                       X_test = getitem_mask X mge, y_test = select mge demand\<rparr>"
  have sp: "split D c = Inr P"
    unfolding P_def mlt_def mge_def by (rule split_Inr [OF pop])
  have len: "length (timeStamp D) = length (index D)" "length demand = length (index D)"
    using f(1,2) fr by simp_all
  have dist: "distinct (index D)" using wf by (simp add: wf_frame_def)
  have lm: "length (index D) = length mlt" "length (index D) = length mge"
    using len by (simp_all add: mlt_def mge_def series_lt_def series_ge_def)
  have mem: "(index D ! k \<in> set (index (X_train P)) \<longleftrightarrow> stamp_lt (timeStamp D ! k) c) \<and>
        (index D ! k \<in> set (index (X_test P)) \<longleftrightarrow> stamp_ge (timeStamp D ! k) c)"
    if k: "k < length (index D)" for k
  proof -
    have "index D ! k \<in> set (select mlt (index D)) \<longleftrightarrow> mlt ! k"
      using lm(1) dist k by (intro select_member_iff) simp_all
    moreover have "index D ! k \<in> set (select mge (index D)) \<longleftrightarrow> mge ! k"
      using lm(2) dist k by (intro select_member_iff) simp_all
    moreover have "mlt ! k = stamp_lt (timeStamp D ! k) c" "mge ! k = stamp_ge (timeStamp D ! k) c"
      using k len by (simp_all add: mlt_def mge_def series_lt_def series_ge_def)
    ultimately show ?thesis by (simp add: P_def getitem_mask_def fr)
  qed
  have cols: "columns X = filter (\<lambda>n. n \<noteq> target_column_name) (columns D)"
    using pop target_not_time by (rule columns_pop)
  have notin: "target_column_name \<notin> set (columns X)"
    by (simp add: cols)
  have al_tr: "zip (index (X_train P)) (zip (timeStamp (X_train P)) (y_train P)) =
       filter (\<lambda>(i, t, v). stamp_lt t c) (zip (index D) (zip (timeStamp D) demand))"
    using select_triples [OF len, of "\<lambda>t. stamp_lt t c"]
    by (simp add: P_def getitem_mask_def fr mlt_def series_lt_def)
  have al_te: "zip (index (X_test P)) (zip (timeStamp (X_test P)) (y_test P)) =
       filter (\<lambda>(i, t, v). stamp_ge t c) (zip (index D) (zip (timeStamp D) demand))"
    using select_triples [OF len, of "\<lambda>t. stamp_ge t c"]
    by (simp add: P_def getitem_mask_def fr mge_def series_ge_def)
  have lens: "length (y_train P) = length (index (X_train P))"
    "length (timeStamp (X_train P)) = length (index (X_train P))"
    "length (y_test P) = length (index (X_test P))"
    "length (timeStamp (X_test P)) = length (index (X_test P))"
    using len lm by (simp_all add: P_def getitem_mask_def fr length_select)
  show ?thesis
    apply (intro exI [of _ P] conjI allI impI)
                apply (rule sp)
    using mem notin cols al_tr al_te lens by (simp_all add: P_def)
qed

theorem split_assigns_rows_and_pops_target_witness:
  "wf_frame D0 \<and>
   map_of (fcols D0) target_column_name = Some [Fin 1, Fin 2, Fin 3] \<and>
   (\<exists>P. split D0 20 = Inr P \<and>
     (\<forall>k < length (index D0).
        (index D0 ! k \<in> set (index (X_train P)) \<longleftrightarrow> stamp_lt (timeStamp D0 ! k) 20) \<and>
        (index D0 ! k \<in> set (index (X_test P)) \<longleftrightarrow> stamp_ge (timeStamp D0 ! k) 20)) \<and>
     target_column_name \<notin> set (columns (X_train P)) \<and>
     target_column_name \<notin> set (columns (X_test P)) \<and>
     columns (X_train P) = filter (\<lambda>n. n \<noteq> target_column_name) (columns D0) \<and>
     columns (X_test P) = filter (\<lambda>n. n \<noteq> target_column_name) (columns D0) \<and>
     zip (index (X_train P)) (zip (timeStamp (X_train P)) (y_train P)) =
       filter (\<lambda>(i, t, v). stamp_lt t 20)
         (zip (index D0) (zip (timeStamp D0) [Fin 1, Fin 2, Fin 3])) \<and>
     zip (index (X_test P)) (zip (timeStamp (X_test P)) (y_test P)) =
       filter (\<lambda>(i, t, v). stamp_ge t 20)
         (zip (index D0) (zip (timeStamp D0) [Fin 1, Fin 2, Fin 3])) \<and>
     length (y_train P) = length (index (X_train P)) \<and>
     length (timeStamp (X_train P)) = length (index (X_train P)) \<and>
     length (y_test P) = length (index (X_test P)) \<and>
     length (timeStamp (X_test P)) = length (index (X_test P)))"
proof -
  have h: "map_of (fcols D0) target_column_name = Some [Fin 1, Fin 2, Fin 3]"
    by (simp add: D0_def target_column_name_def)
  show ?thesis
    using D0_wf h split_assigns_rows_and_pops_target [OF D0_wf h, of 20] by blast
qed

text \<open>
  The claim as stated has the target column retained in the train partition. On the
  three-row dataset with cutoff 20 the train frame has lost it: line 220 pops it.
\<close>

theorem train_target_retained_counterexample:
  "split D0 20 =
     Inr \<lparr>X_train = \<lparr>index = [0], timeStamp = [Some 10], fcols = [(''temp'', [Fin 50])]\<rparr>,
          y_train = [Fin 1],
          X_test = \<lparr>index = [1, 2], timeStamp = [Some 20, Some 30],
                    fcols = [(''temp'', [NaN, Fin 70])]\<rparr>,
          y_test = [Fin 2, Fin 3]\<rparr> \<and>
   columns D0 = [''timeStamp'', ''demand'', ''temp''] \<and>
   columns (X_train (projr (split D0 20))) = [''timeStamp'', ''temp''] \<and>
   target_column_name \<notin> set (columns (X_train (projr (split D0 20))))"
  unfolding split_D0_20
  by (simp add: columns_def time_column_name_def target_column_name_def D0_def)

section \<open>C3: the test of the fitted model calls predict\<close>

text \<open>
  C3. The notebook says, above the cell (line 384), that for forecasting it will use the
  \<^verbatim>\<open>forecast\<close> function instead of the \<^verbatim>\<open>predict\<close> function. The cell that
  evaluates the model on the test set (lines 397-398) calls \<^verbatim>\<open>predict\<close>: whatever the
  fitted model, the predictions it scores are those of \<^verbatim>\<open>predict\<close>; and on a fitted
  model whose two methods differ, they are not those of the forecast call of line 429.
\<close>

theorem test_cell_uses_predict:
  "fst (test_cell fitted X y) = predict fitted X \<and>
   split D0 20 = Inr P0 \<and>
   fst (test_cell fm0 (X_test P0) (y_test P0)) = [Fin 0, Fin 0] \<and>
   fst (forecast_cell fm0 (X_test P0) (y_test P0)) = [Fin 1, Fin 1] \<and>
   fst (test_cell fm0 (X_test P0) (y_test P0)) \<noteq>
     fst (forecast_cell fm0 (X_test P0) (y_test P0))"
  by (simp add: split_D0_P0 test_cell_def forecast_cell_def fm0_def y_query_def fill_def
        Let_def P0_def)

section \<open>C4: residuals, MAE and RMSE\<close>




section \<open>C5: sequences of different lengths\<close>

text \<open>
  C5, as the code has it. For sequences of different lengths, the residual of line 398, and
  with it \<open>evaluate\<close>, fails with \<^verbatim>\<open>ValueError\<close> when neither length is one, and
  returns nothing then. When exactly one of the sequences has length one, it is broadcast
  against the other and a residual of the other's length is returned.
\<close>

theorem residual_length_mismatch:
  assumes "length actual \<noteq> length predicted"
  shows
    "(length actual \<noteq> 1 \<and> length predicted \<noteq> 1 \<longrightarrow>
        residual actual predicted = Inl ValueError \<and>
        evaluate actual predicted = Inl ValueError) \<and>
     (length predicted = 1 \<longrightarrow>
        residual actual predicted = Inr (map (\<lambda>a. fl_minus a (hd predicted)) actual) \<and>
        (\<exists>r. evaluate actual predicted = Inr r \<and>
              residuals r = map (\<lambda>a. fl_minus a (hd predicted)) actual)) \<and>
     (length actual = 1 \<longrightarrow>
        residual actual predicted = Inr (map (\<lambda>p. fl_minus (hd actual) p) predicted) \<and>
        (\<exists>r. evaluate actual predicted = Inr r \<and>
              residuals r = map (\<lambda>p. fl_minus (hd actual) p) predicted))"
  using assms by (auto simp: residual_def evaluate_def)

theorem residual_length_mismatch_witness:
  "length [Fin 1, Fin 2, Fin 3] \<noteq> length [Fin 4, Fin 5] \<and>
   residual [Fin 1, Fin 2, Fin 3] [Fin 4, Fin 5] = Inl ValueError \<and>
   evaluate [Fin 1, Fin 2, Fin 3] [Fin 4, Fin 5] = Inl ValueError \<and>
   length [Fin 1, Fin 2, Fin 3] \<noteq> length [Fin 5] \<and>
   residual [Fin 1, Fin 2, Fin 3] [Fin 5] = Inr [Fin (-4), Fin (-3), Fin (-2)] \<and>
   length [Fin 5] \<noteq> length [Fin 1, Fin 2, Fin 3] \<and>
   residual [Fin 5] [Fin 1, Fin 2, Fin 3] = Inr [Fin 4, Fin 3, Fin 2]"
proof -
  have h1: "length [Fin 1, Fin 2, Fin 3] \<noteq> length [Fin 4, Fin 5]"
    and h2: "length [Fin 1, Fin 2, Fin 3] \<noteq> length [Fin 5]"
    and h3: "length [Fin 5] \<noteq> length [Fin 1, Fin 2, Fin 3]"
    by simp_all
  show ?thesis
    using h1 h2 h3 residual_length_mismatch [OF h1] residual_length_mismatch [OF h2]
      residual_length_mismatch [OF h3]
    by simp
qed

text \<open>
  The claim as stated has every pair of different lengths fail. Three actual values against
  one prediction do not.
\<close>

theorem length_mismatch_error_counterexample:
  "length [Fin 1, Fin 2, Fin 3] \<noteq> length [Fin 5] \<and>
   residual [Fin 1, Fin 2, Fin 3] [Fin 5] = Inr [Fin (-4), Fin (-3), Fin (-2)] \<and>
   evaluate [Fin 1, Fin 2, Fin 3] [Fin 5] =
     Inr \<lparr>residuals = [Fin (-4), Fin (-3), Fin (-2)]\<rparr>"
  by (simp add: evaluate_def residual_def)

section \<open>C6: an empty partition is returned, not refused\<close>

text \<open>
  C6, as the code has it. For every well-formed dataset with its target column and every
  cutoff the split returns its partitions; the train partition is empty exactly when no
  timestamp is before the cutoff, the test partition exactly when no timestamp is at or after
  it, and the target arrays are empty with their frames. In particular, when every timestamp
  is at or after the cutoff the train partition is empty and the test partition has every
  row; when every timestamp is before it, the other way round.
\<close>

theorem split_returns_empty_partition:
  assumes wf: "wf_frame D" and tgt: "target_column_name \<in> fst ` set (fcols D)"
  shows "\<exists>P. split D c = Inr P \<and>
    (index (X_train P) = [] \<longleftrightarrow> (\<forall>t \<in> set (timeStamp D). \<not> stamp_lt t c)) \<and>
    (index (X_test P) = [] \<longleftrightarrow> (\<forall>t \<in> set (timeStamp D). \<not> stamp_ge t c)) \<and>
    (y_train P = [] \<longleftrightarrow> index (X_train P) = []) \<and>
    (y_test P = [] \<longleftrightarrow> index (X_test P) = []) \<and>
    ((\<forall>t \<in> set (timeStamp D). stamp_ge t c) \<longrightarrow>
       index (X_train P) = [] \<and> index (X_test P) = index D) \<and>
    ((\<forall>t \<in> set (timeStamp D). stamp_lt t c) \<longrightarrow>
       index (X_test P) = [] \<and> index (X_train P) = index D)"
proof -
  from tgt obtain y X where pop: "pop D target_column_name = Inr (y, X)"
    by (rule pop_total)
  note fr = pop_frame [OF pop]
  note f = split_facts [OF wf pop]
  define mlt where "mlt = series_lt (timeStamp D) c"
  define mge where "mge = series_ge (timeStamp D) c"
  define P where "P = \<lparr>X_train = getitem_mask X mlt, y_train = select mlt y,
                       X_test = getitem_mask X mge, y_test = select mge y\<rparr>"
  have sp: "split D c = Inr P"
    unfolding P_def mlt_def mge_def by (rule split_Inr [OF pop])
  have lm: "length (index D) = length mlt" "length (index D) = length mge"
    "length y = length mlt" "length y = length mge"
    using f(1,2) fr by (simp_all add: mlt_def mge_def series_lt_def series_ge_def)
  have tr: "index (X_train P) = [] \<longleftrightarrow> (\<forall>t \<in> set (timeStamp D). \<not> stamp_lt t c)"
    using select_eq_Nil [OF lm(1)] by (simp add: P_def getitem_mask_def fr mlt_def series_lt_def)
  have te: "index (X_test P) = [] \<longleftrightarrow> (\<forall>t \<in> set (timeStamp D). \<not> stamp_ge t c)"
    using select_eq_Nil [OF lm(2)] by (simp add: P_def getitem_mask_def fr mge_def series_ge_def)
  have ytr: "y_train P = [] \<longleftrightarrow> index (X_train P) = []"
    using select_eq_Nil [OF lm(1)] select_eq_Nil [OF lm(3)]
    by (simp add: P_def getitem_mask_def fr)
  have yte: "y_test P = [] \<longleftrightarrow> index (X_test P) = []"
    using select_eq_Nil [OF lm(2)] select_eq_Nil [OF lm(4)]
    by (simp add: P_def getitem_mask_def fr)
  have excl: "\<not> (stamp_lt t c \<and> stamp_ge t c)" for t
    by (auto simp: stamp_lt_def stamp_ge_def split: option.splits)
  have all_test: "index (X_train P) = [] \<and> index (X_test P) = index D"
    if a: "\<forall>t \<in> set (timeStamp D). stamp_ge t c"
  proof -
    have "index (X_train P) = []" using a excl by (auto simp: tr)
    moreover have "select mge (index D) = index D"
      using lm(2) a by (intro select_all) (simp_all add: mge_def series_ge_def)
    ultimately show ?thesis by (simp add: P_def getitem_mask_def fr)
  qed
  have all_train: "index (X_test P) = [] \<and> index (X_train P) = index D"
    if a: "\<forall>t \<in> set (timeStamp D). stamp_lt t c"
  proof -
    have "index (X_test P) = []" using a excl by (auto simp: te)
    moreover have "select mlt (index D) = index D"
      using lm(1) a by (intro select_all) (simp_all add: mlt_def series_lt_def)
    ultimately show ?thesis by (simp add: P_def getitem_mask_def fr)
  qed
  show ?thesis using sp tr te ytr yte all_test all_train by blast
qed

theorem split_returns_empty_partition_witness:
  "wf_frame D0 \<and> target_column_name \<in> fst ` set (fcols D0) \<and>
   (\<exists>P. split D0 5 = Inr P \<and> index (X_train P) = [] \<and> y_train P = [] \<and>
      index (X_test P) = [0, 1, 2] \<and> y_test P \<noteq> []) \<and>
   (\<exists>P. split D0 31 = Inr P \<and> index (X_test P) = [] \<and> y_test P = [] \<and>
      index (X_train P) = [0, 1, 2] \<and> y_train P \<noteq> [])"
proof -
  have ge: "\<forall>t \<in> set (timeStamp D0). stamp_ge t 5"
    and lt: "\<forall>t \<in> set (timeStamp D0). stamp_lt t 31"
    by (simp_all add: D0_def stamp_ge_def stamp_lt_def)
  have ix: "index D0 = [0, 1, 2]" by (simp add: D0_def)
  have a: "\<exists>P. split D0 5 = Inr P \<and> index (X_train P) = [] \<and> y_train P = [] \<and>
      index (X_test P) = [0, 1, 2] \<and> y_test P \<noteq> []"
    using split_returns_empty_partition [OF D0_wf D0_target, of 5] ge ix by force
  have b: "\<exists>P. split D0 31 = Inr P \<and> index (X_test P) = [] \<and> y_test P = [] \<and>
      index (X_train P) = [0, 1, 2] \<and> y_train P \<noteq> []"
    using split_returns_empty_partition [OF D0_wf D0_target, of 31] lt ix by force
  show ?thesis using D0_wf D0_target a b by blast
qed

text \<open>
  The claim as stated has the split fail on an empty partition. With the cutoff before the
  first timestamp the split returns an empty train partition; with the cutoff after the last
  it returns an empty test partition; with the cutoff at the last timestamp the test
  partition is not empty: it holds the last row.
\<close>

theorem empty_partition_error_counterexample:
  "split D0 5 =
     Inr \<lparr>X_train = \<lparr>index = [], timeStamp = [], fcols = [(''temp'', [])]\<rparr>,
          y_train = [],
          X_test = \<lparr>index = [0, 1, 2], timeStamp = [Some 10, Some 20, Some 30],
                    fcols = [(''temp'', [Fin 50, NaN, Fin 70])]\<rparr>,
          y_test = [Fin 1, Fin 2, Fin 3]\<rparr> \<and>
   split D0 30 =
     Inr \<lparr>X_train = \<lparr>index = [0, 1], timeStamp = [Some 10, Some 20],
                     fcols = [(''temp'', [Fin 50, NaN])]\<rparr>,
          y_train = [Fin 1, Fin 2],
          X_test = \<lparr>index = [2], timeStamp = [Some 30], fcols = [(''temp'', [Fin 70])]\<rparr>,
          y_test = [Fin 3]\<rparr> \<and>
   split D0 31 =
     Inr \<lparr>X_train = \<lparr>index = [0, 1, 2], timeStamp = [Some 10, Some 20, Some 30],
                     fcols = [(''temp'', [Fin 50, NaN, Fin 70])]\<rparr>,
          y_train = [Fin 1, Fin 2, Fin 3],
          X_test = \<lparr>index = [], timeStamp = [], fcols = [(''temp'', [])]\<rparr>,
          y_test = []\<rparr>"
  by (simp add: split_D0_5 split_D0_30 split_D0_31)

section \<open>C7: the horizon\<close>

text \<open>
  C7 is a property of the service's \<^verbatim>\<open>forecast\<close> method: how many values it returns and
  whether it fails beyond \<^verbatim>\<open>max_horizon\<close>. The notebook sets \<^verbatim>\<open>max_horizon\<close> to 20
  (line 270) and passes the whole test partition to \<^verbatim>\<open>forecast\<close> (line 429) without
  comparing its length to the horizon. The method is a parameter of \<open>fitted_model\<close> here,
  and no theorem about it is stated.
\<close>

section \<open>C8: a zero denominator of R squared\<close>




section \<open>C9: the split leaves the loaded dataset as it was\<close>

text \<open>
  C9, as the code has it. When the dataset has its target column, the split cell returns and
  the object \<open>data\<close> refers to is unchanged (as is every object that existed before the
  cell): same rows, same columns, the target among them. The two partitions are new objects,
  distinct from \<open>data\<close> and from each other, holding copies of the selected rows; the
  cell then writes to them (it pops the target column), so neither is a read-only view of the
  dataset's records.
\<close>

theorem split_cell_leaves_data_unchanged:
  assumes dat: "dat < length h"
    and tgt: "target_column_name \<in> fst ` set (fcols (h ! dat))"
  shows "\<exists>r P. split_cell h dat c = Inr r \<and> split (h ! dat) c = Inr P \<and>
     store r ! dat = h ! dat \<and>
     (\<forall>a < length h. store r ! a = h ! a) \<and>
     length (store r) = length h + 2 \<and>
     X_train_ref r = length h \<and> X_test_ref r = length h + 1 \<and>
     X_train_ref r \<noteq> dat \<and> X_test_ref r \<noteq> dat \<and>
     store r ! X_train_ref r = X_train P \<and> store r ! X_test_ref r = X_test P \<and>
     y_train_arr r = y_train P \<and> y_test_arr r = y_test P \<and>
     \<not> read_only_view (h ! dat) (series_lt (timeStamp (h ! dat)) c) (store r ! X_train_ref r) \<and>
     \<not> read_only_view (h ! dat) (series_ge (timeStamp (h ! dat)) c) (store r ! X_test_ref r)"
proof -
  from tgt obtain y X where pop: "pop (h ! dat) target_column_name = Inr (y, X)"
    by (rule pop_total)
  define P where "P = \<lparr>X_train = getitem_mask X (series_lt (timeStamp (h ! dat)) c),
      y_train = select (series_lt (timeStamp (h ! dat)) c) y,
      X_test = getitem_mask X (series_ge (timeStamp (h ! dat)) c),
      y_test = select (series_ge (timeStamp (h ! dat)) c) y\<rparr>"
  define r where "r = \<lparr>store = h @ [X_train P, X_test P],
      X_train_ref = length h, X_test_ref = Suc (length h),
      y_train_arr = y_train P, y_test_arr = y_test P\<rparr>"
  have sp: "split (h ! dat) c = Inr P"
    unfolding P_def by (rule split_Inr [OF pop])
  have cell: "split_cell h dat c = Inr r"
    by (simp add: split_cell_split [OF dat] sp r_def)
  have old: "\<forall>a < length h. store r ! a = h ! a"
    by (simp add: r_def nth_append)
  have nv: "\<not> read_only_view (h ! dat) (series_lt (timeStamp (h ! dat)) c) (store r ! X_train_ref r)"
    "\<not> read_only_view (h ! dat) (series_ge (timeStamp (h ! dat)) c) (store r ! X_test_ref r)"
    using pop_changes_frame [OF pop]
    by (simp_all add: read_only_view_def r_def P_def nth_append)
  show ?thesis
    apply (intro exI [of _ r] exI [of _ P] conjI)
                  apply (rule cell)
                 apply (rule sp)
    using old dat nv by (simp_all add: r_def nth_append)
qed

theorem split_cell_leaves_data_unchanged_witness:
  "(0::nat) < length [D0] \<and> target_column_name \<in> fst ` set (fcols ([D0] ! 0)) \<and>
   (\<exists>r P. split_cell [D0] 0 20 = Inr r \<and> split ([D0] ! 0) 20 = Inr P \<and>
     store r ! 0 = [D0] ! 0 \<and>
     (\<forall>a < length [D0]. store r ! a = [D0] ! a) \<and>
     length (store r) = length [D0] + 2 \<and>
     X_train_ref r = length [D0] \<and> X_test_ref r = length [D0] + 1 \<and>
     X_train_ref r \<noteq> 0 \<and> X_test_ref r \<noteq> 0 \<and>
     store r ! X_train_ref r = X_train P \<and> store r ! X_test_ref r = X_test P \<and>
     y_train_arr r = y_train P \<and> y_test_arr r = y_test P \<and>
     \<not> read_only_view ([D0] ! 0) (series_lt (timeStamp ([D0] ! 0)) 20) (store r ! X_train_ref r) \<and>
     \<not> read_only_view ([D0] ! 0) (series_ge (timeStamp ([D0] ! 0)) 20) (store r ! X_test_ref r))"
proof -
  have h1: "(0::nat) < length [D0]" by simp
  have h2: "target_column_name \<in> fst ` set (fcols ([D0] ! 0))"
    using D0_target by simp
  show ?thesis
    using h1 h2 split_cell_leaves_data_unchanged [OF h1 h2, of 20] by blast
qed

text \<open>
  The claim as stated has the partitions be read-only views sharing the dataset's record
  data. After the cell the train object is at a new address and no longer shows the
  selected records of the dataset: its target column is gone, while the dataset still has it.
\<close>

theorem partitions_are_views_counterexample:
  "split_cell [D0] 0 20 =
     Inr \<lparr>store = [D0,
            \<lparr>index = [0], timeStamp = [Some 10], fcols = [(''temp'', [Fin 50])]\<rparr>,
            \<lparr>index = [1, 2], timeStamp = [Some 20, Some 30],
              fcols = [(''temp'', [NaN, Fin 70])]\<rparr>],
          X_train_ref = 1, X_test_ref = 2,
          y_train_arr = [Fin 1], y_test_arr = [Fin 2, Fin 3]\<rparr> \<and>
   getitem_mask D0 (series_lt (timeStamp D0) 20) =
     \<lparr>index = [0], timeStamp = [Some 10],
      fcols = [(''demand'', [Fin 1]), (''temp'', [Fin 50])]\<rparr> \<and>
   \<not> read_only_view D0 (series_lt (timeStamp D0) 20)
       (store (projr (split_cell [D0] 0 20)) ! X_train_ref (projr (split_cell [D0] 0 20))) \<and>
   \<not> read_only_view D0 (series_ge (timeStamp D0) 20)
       (store (projr (split_cell [D0] 0 20)) ! X_test_ref (projr (split_cell [D0] 0 20)))"
  unfolding split_cell_D0_20
  by (simp add: read_only_view_def getitem_mask_def series_lt_def series_ge_def
        stamp_lt_def stamp_ge_def D0_def)

section \<open>C10: the forecast query carries no actual target value\<close>

text \<open>
  C10, as the code has it. For the partitions of any well-formed dataset: every entry of the
  query array passed to \<^verbatim>\<open>forecast\<close> beside the test features is \<^verbatim>\<open>NaN\<close>, the
  array has one entry per test row, and the test features have no target column; so the call
  is the same whatever the held-out target values are. No query row has a known target, hence
  the forecast origin of the training rows followed by the query rows is that of the training
  rows alone: the last training timestamp whose target is known, if there is one. It is the
  last training timestamp when the target of the last training row is known. Every training
  timestamp is before the cutoff and every query timestamp at or after it.
\<close>

theorem forecast_query_all_unknown:
  assumes wf: "wf_frame D" and sp: "split D c = Inr P"
  shows "(\<forall>v \<in> set (y_query (y_test P)). v = NaN) \<and>
     length (y_query (y_test P)) = length (index (X_test P)) \<and>
     length (timeStamp (X_test P)) = length (index (X_test P)) \<and>
     forecast_cell fitted (X_test P) (y_test P) =
       forecast fitted (X_test P) (replicate (length (index (X_test P))) NaN) \<and>
     target_column_name \<notin> set (columns (X_test P)) \<and>
     (\<forall>y'. length y' = length (y_test P) \<longrightarrow>
        forecast_cell fitted (X_test P) y' = forecast_cell fitted (X_test P) (y_test P)) \<and>
     forecast_origin (zip (timeStamp (X_train P)) (y_train P) @
                      zip (timeStamp (X_test P)) (y_query (y_test P))) =
       forecast_origin (zip (timeStamp (X_train P)) (y_train P)) \<and>
     (y_train P \<noteq> [] \<and> last (y_train P) \<noteq> NaN \<longrightarrow>
        forecast_origin (zip (timeStamp (X_train P)) (y_train P) @
                         zip (timeStamp (X_test P)) (y_query (y_test P))) =
          Some (last (timeStamp (X_train P)))) \<and>
     (\<forall>t. forecast_origin (zip (timeStamp (X_train P)) (y_train P) @
                            zip (timeStamp (X_test P)) (y_query (y_test P))) = Some t \<longrightarrow>
          t \<in> set (timeStamp (X_train P))) \<and>
     (\<forall>t \<in> set (timeStamp (X_train P)). stamp_lt t c) \<and>
     (\<forall>t \<in> set (timeStamp (X_test P)). stamp_ge t c)"
proof -
  from sp obtain y X where pop: "pop D target_column_name = Inr (y, X)"
    and P: "P = \<lparr>X_train = getitem_mask X (series_lt (timeStamp D) c),
               y_train = select (series_lt (timeStamp D) c) y,
               X_test = getitem_mask X (series_ge (timeStamp D) c),
               y_test = select (series_ge (timeStamp D) c) y\<rparr>"
    by (rule split_Inr_elim)
  note fr = pop_frame [OF pop]
  note f = split_facts [OF wf pop]
  have len: "length (timeStamp D) = length (index D)" "length y = length (index D)"
    using f(1,2) fr by simp_all
  have lens: "length (y_test P) = length (index (X_test P))"
    "length (timeStamp (X_test P)) = length (index (X_test P))"
    "length (timeStamp (X_train P)) = length (y_train P)"
    using len by (simp_all add: P getitem_mask_def fr length_select series_lt_def series_ge_def)
  have nan: "\<forall>v \<in> set (y_query (y_test P)). v = NaN"
    by (simp add: y_query_replicate)
  have call: "forecast_cell fitted (X_test P) (y_test P) =
       forecast fitted (X_test P) (replicate (length (index (X_test P))) NaN)"
    by (simp add: forecast_cell_def y_query_replicate lens)
  have notin: "target_column_name \<notin> set (columns (X_test P))"
    using columns_pop [OF pop target_not_time] by (simp add: P)
  have indep: "\<forall>y'. length y' = length (y_test P) \<longrightarrow>
        forecast_cell fitted (X_test P) y' = forecast_cell fitted (X_test P) (y_test P)"
    by (simp add: forecast_cell_def y_query_replicate)
  have origin: "forecast_origin (zip (timeStamp (X_train P)) (y_train P) @
                      zip (timeStamp (X_test P)) (y_query (y_test P))) =
       forecast_origin (zip (timeStamp (X_train P)) (y_train P))"
    by (rule forecast_origin_unknown_suffix)
  have last_known: "forecast_origin (zip (timeStamp (X_train P)) (y_train P)) =
          Some (last (timeStamp (X_train P)))"
    if "y_train P \<noteq> []" and "last (y_train P) \<noteq> NaN"
    using lens(3) that by (rule forecast_origin_last_known)
  have before: "\<forall>t \<in> set (timeStamp (X_train P)). stamp_lt t c"
    by (simp add: P getitem_mask_def fr series_lt_def select_self)
  have after: "\<forall>t \<in> set (timeStamp (X_test P)). stamp_ge t c"
    by (simp add: P getitem_mask_def fr series_ge_def select_self)
  have len_q: "length (y_query (y_test P)) = length (index (X_test P))"
    by (simp add: y_query_replicate lens)
  have lk: "y_train P \<noteq> [] \<and> last (y_train P) \<noteq> NaN \<longrightarrow>
        forecast_origin (zip (timeStamp (X_train P)) (y_train P) @
                         zip (timeStamp (X_test P)) (y_query (y_test P))) =
          Some (last (timeStamp (X_train P)))"
    using last_known by (simp only: origin) blast
  have mem: "\<forall>t. forecast_origin (zip (timeStamp (X_train P)) (y_train P) @
                            zip (timeStamp (X_test P)) (y_query (y_test P))) = Some t \<longrightarrow>
          t \<in> set (timeStamp (X_train P))"
  proof (intro allI impI)
    fix t
    assume "forecast_origin (zip (timeStamp (X_train P)) (y_train P) @
                            zip (timeStamp (X_test P)) (y_query (y_test P))) = Some t"
    then have "forecast_origin (zip (timeStamp (X_train P)) (y_train P)) = Some t"
      by (simp only: origin)
    then have "t \<in> fst ` set (zip (timeStamp (X_train P)) (y_train P))"
      by (rule forecast_origin_mem)
    then show "t \<in> set (timeStamp (X_train P))"
      by (auto dest: set_zip_leftD)
  qed
  show ?thesis
    by (intro conjI) (fact nan len_q lens(2) call notin indep origin lk mem before after)+
qed

theorem forecast_query_all_unknown_witness:
  "wf_frame D0 \<and> split D0 20 = Inr P0 \<and>
   y_train P0 \<noteq> [] \<and> last (y_train P0) \<noteq> NaN \<and>
   y_test P0 = [Fin 2, Fin 3] \<and>
   y_query (y_test P0) = [NaN, NaN] \<and>
   forecast_cell fm0 (X_test P0) (y_test P0) = forecast fm0 (X_test P0) [NaN, NaN] \<and>
   forecast_cell fm0 (X_test P0) [Fin 7, Fin 8] = forecast_cell fm0 (X_test P0) (y_test P0) \<and>
   forecast_origin (zip (timeStamp (X_train P0)) (y_train P0) @
       zip (timeStamp (X_test P0)) (y_query (y_test P0))) = Some (Some 10) \<and>
   last (timeStamp (X_train P0)) = Some 10"
proof -
  have tr: "y_train P0 \<noteq> []" "last (y_train P0) \<noteq> NaN"
    and te: "y_test P0 = [Fin 2, Fin 3]"
    and ts: "last (timeStamp (X_train P0)) = Some 10"
    and ix: "index (X_test P0) = [1, 2]"
    by (simp_all add: P0_def)
  have q: "y_query (y_test P0) = [NaN, NaN]"
    by (simp add: te y_query_def fill_def)
  note inst = forecast_query_all_unknown [OF D0_wf split_D0_P0, of fm0]
  have a: "forecast_cell fm0 (X_test P0) (y_test P0) = forecast fm0 (X_test P0) [NaN, NaN]"
    using inst by (simp add: ix numeral_2_eq_2)
  have b: "forecast_cell fm0 (X_test P0) [Fin 7, Fin 8] =
           forecast_cell fm0 (X_test P0) (y_test P0)"
    using inst te by simp
  have c: "forecast_origin (zip (timeStamp (X_train P0)) (y_train P0) @
       zip (timeStamp (X_test P0)) (y_query (y_test P0))) = Some (Some 10)"
  proof -
    from inst tr have "forecast_origin (zip (timeStamp (X_train P0)) (y_train P0) @
       zip (timeStamp (X_test P0)) (y_query (y_test P0))) =
       Some (last (timeStamp (X_train P0)))"
      by blast
    then show ?thesis by (simp only: ts)
  qed
  show ?thesis using D0_wf split_D0_P0 tr te q a b c ts by simp
qed

text \<open>
  The claim as stated has the forecast origin be exactly the last training timestamp. On the
  three-row dataset whose second target is missing, split after the second row, the last
  training timestamp is 20 and the last timestamp with a known target is 10.
\<close>

theorem origin_not_last_training_timestamp_counterexample:
  "wf_frame D2 \<and>
   split D2 30 =
     Inr \<lparr>X_train = \<lparr>index = [0, 1], timeStamp = [Some 10, Some 20],
                     fcols = [(''temp'', [Fin 50, NaN])]\<rparr>,
          y_train = [Fin 1, NaN],
          X_test = \<lparr>index = [2], timeStamp = [Some 30], fcols = [(''temp'', [Fin 70])]\<rparr>,
          y_test = [Fin 3]\<rparr> \<and>
   y_query (y_test (projr (split D2 30))) = [NaN] \<and>
   forecast_origin
     (zip (timeStamp (X_train (projr (split D2 30)))) (y_train (projr (split D2 30))) @
      zip (timeStamp (X_test (projr (split D2 30)))) (y_query (y_test (projr (split D2 30))))) =
     Some (Some 10) \<and>
   last (timeStamp (X_train (projr (split D2 30)))) = Some 20 \<and>
   forecast_origin
     (zip (timeStamp (X_train (projr (split D2 30)))) (y_train (projr (split D2 30))) @
      zip (timeStamp (X_test (projr (split D2 30)))) (y_query (y_test (projr (split D2 30))))) \<noteq>
     Some (last (timeStamp (X_train (projr (split D2 30)))))"
  unfolding split_D2_30
  using D2_wf by (simp add: y_query_def fill_def forecast_origin_def)

end
